theory Spec2Isabelle
  imports Complex_Main "HOL-Library.Word" "HOL-Library.AList"
    "HOL-Library.Char_ord" "HOL-Library.List_Lexorder" "HOL-Library.Log_Nat"
begin

section \<open>OTLP trace ingestion: the decoder and the bounded span store\<close>

text \<open>
  A shallow embedding of \<^verbatim>\<open>telemetry-service/src/storage.ts\<close> (the class
  \<^verbatim>\<open>TelemetryStorage\<close>) and \<^verbatim>\<open>telemetry-service/src/otlp-processor.ts\<close>
  (the class \<^verbatim>\<open>OTLPProcessor\<close>).

  Conventions of the model.
  \<^item> A JavaScript number is an IEEE double: \<open>NaN\<close>, an infinity, or a finite
    value, kept as the real number it stands for. Every operation rounds its
    exact result to the nearest double, ties to the even significand
    (\<open>toDouble\<close>). The numbers of a payload are doubles already, as the JSON
    parser returns them. The two zeros are not told apart.
  \<^item> A thrown exception is the \<open>Inl\<close> of a sum, or the \<open>Some\<close> of an
    \<open>error option\<close> where the state reached so far is returned with it.
  \<^item> The wire payload has the type \<^verbatim>\<open>any\<close> in the source. The model types it by
    the OTLP/JSON shape that the code reads: every member is optional
    (\<open>None\<close> is a missing member, \<^verbatim>\<open>undefined\<close>), and a member that is present has
    the type OTLP gives it. Truthiness is written out: a missing member and the
    empty string are falsy, every array and every object is truthy.
  \<^item> Calls to the logger have no effect on what is computed and are left out.
\<close>

subsection \<open>Numbers and decoded values\<close>

datatype error = TypeError | RangeError

datatype number = NaN | Num real | PosInfinity | NegInfinity

text \<open>The value of an attribute after decoding: \<^verbatim>\<open>string | number | boolean\<close>.\<close>

datatype attr_value = AString string | ANumber number | ABoolean bool

text \<open>
  \<^verbatim>\<open>Record<string, any>\<close>: the own properties of a plain object, in the order of
  their first insertion.
\<close>

type_synonym attributes = "(string \<times> attr_value) list"

record SpanEvent =
  ev_name :: string
  ev_timestamp :: number
  ev_attributes :: attributes

record TelemetrySpan =
  traceId :: string
  spanId :: string
  parentSpanId :: "string option"
  operationName :: string
  startTime :: number
  endTime :: number
  duration :: number
  status :: string
  attributes :: attributes
  events :: "SpanEvent list"
  serviceName :: string
  timestamp :: string

record TimeRange =
  earliest :: "string option"
  latest :: "string option"

record TelemetryStats =
  totalSpans :: nat
  uniqueServices :: nat
  uniqueOperations :: nat
  timeRange :: TimeRange
  topOperations :: "(string \<times> nat) list"
  errorCount :: nat
  successCount :: nat

subsection \<open>Arrays on a heap\<close>

text \<open>
  \<^verbatim>\<open>this.spans\<close> is a reference to an array. \<^verbatim>\<open>push\<close> and \<^verbatim>\<open>reverse\<close> mutate
  the array they are called on; the spread \<^verbatim>\<open>[...a]\<close>, \<^verbatim>\<open>slice\<close> and \<^verbatim>\<open>filter\<close>
  allocate a new one. The store is therefore modelled together with the heap of
  span arrays it points into: \<open>heap\<close> gives the contents at each reference and
  \<open>fresh\<close> is the next unused reference.
\<close>

type_synonym ref = nat

record TelemetryStorage =
  heap :: "ref \<Rightarrow> TelemetrySpan list"
  fresh :: ref
  spans :: ref
  maxSpans :: int

definition new_array :: "TelemetrySpan list \<Rightarrow> TelemetryStorage \<Rightarrow> ref \<times> TelemetryStorage" where
  "new_array xs st =
     (fresh st, st\<lparr>heap := (heap st)(fresh st := xs), fresh := Suc (fresh st)\<rparr>)"

text \<open>\<^verbatim>\<open>a.push(x)\<close>: appends in place.\<close>

definition push :: "ref \<Rightarrow> TelemetrySpan \<Rightarrow> TelemetryStorage \<Rightarrow> TelemetryStorage" where
  "push a x st = st\<lparr>heap := (heap st)(a := heap st a @ [x])\<rparr>"

text \<open>\<^verbatim>\<open>a.reverse()\<close>: reverses in place and returns the same reference.\<close>

definition reverse :: "ref \<Rightarrow> TelemetryStorage \<Rightarrow> ref \<times> TelemetryStorage" where
  "reverse a st = (a, st\<lparr>heap := (heap st)(a := rev (heap st a))\<rparr>)"

text \<open>
  The elements that \<^verbatim>\<open>a.slice(start)\<close> selects: a negative \<open>start\<close> counts from
  the end and is clamped at the first element, a non-negative one is clamped at
  the length. \<^verbatim>\<open>-0\<close> is \<open>0\<close>.
\<close>

definition Array_slice :: "int \<Rightarrow> 'a list \<Rightarrow> 'a list" where
  "Array_slice start xs =
     (let len = int (length xs);
          k = (if start < 0 then max (len + start) 0 else min start len)
      in drop (nat k) xs)"

subsection \<open>TelemetryStorage\<close>

text \<open>The object as the class initialisers build it: an empty array and 10000.\<close>

definition TelemetryStorage_new :: TelemetryStorage where
  "TelemetryStorage_new = \<lparr>heap = (\<lambda>_. []), fresh = 1, spans = 0, maxSpans = 10000\<rparr>"

text \<open>The span sequence the store holds, in insertion order.\<close>

definition held :: "TelemetryStorage \<Rightarrow> TelemetrySpan list" where
  "held st = heap st (spans st)"

text \<open>The array of \<^verbatim>\<open>this.spans\<close> has been allocated.\<close>

definition allocated :: "TelemetryStorage \<Rightarrow> bool" where
  "allocated st = (spans st < fresh st)"

definition addSpan :: "TelemetrySpan \<Rightarrow> TelemetryStorage \<Rightarrow> TelemetryStorage" where
  "addSpan sp st =
     (let st1 = push (spans st) sp st
      in if int (length (heap st1 (spans st1))) > maxSpans st1
         then (let (a, st2) = new_array (Array_slice (- maxSpans st1) (heap st1 (spans st1))) st1
               in st2\<lparr>spans := a\<rparr>)
         else st1)"

definition getAllSpans :: "TelemetryStorage \<Rightarrow> ref \<times> TelemetryStorage" where
  "getAllSpans st = (let (a, st1) = new_array (heap st (spans st)) st in reverse a st1)"

definition getSpansByService :: "string \<Rightarrow> TelemetryStorage \<Rightarrow> ref \<times> TelemetryStorage" where
  "getSpansByService name st =
     new_array (filter (\<lambda>sp. serviceName sp = name) (heap st (spans st))) st"

definition getSpansByOperation :: "string \<Rightarrow> TelemetryStorage \<Rightarrow> ref \<times> TelemetryStorage" where
  "getSpansByOperation name st =
     new_array (filter (\<lambda>sp. operationName sp = name) (heap st (spans st))) st"

definition getTotalSpans :: "TelemetryStorage \<Rightarrow> nat" where
  "getTotalSpans st = length (heap st (spans st))"


text \<open>
  \<^verbatim>\<open>getRecentSpans(limit: number = 50)\<close>: \<open>None\<close> is a call without the
  argument.
\<close>

definition getRecentSpans :: "int option \<Rightarrow> TelemetryStorage \<Rightarrow> ref \<times> TelemetryStorage" where
  "getRecentSpans limit st =
     (let n = (case limit of None \<Rightarrow> 50 | Some l \<Rightarrow> l);
          (a, st1) = new_array (Array_slice (- n) (heap st (spans st))) st
      in reverse a st1)"

text \<open>What a method that returns an array hands to its caller.\<close>

definition returned :: "ref \<times> TelemetryStorage \<Rightarrow> TelemetrySpan list" where
  "returned r = heap (snd r) (fst r)"

text \<open>
  The body of the \<^verbatim>\<open>forEach\<close> in \<^verbatim>\<open>getStats\<close>, on the three variables it
  updates. \<open>operations\<close> is a \<^verbatim>\<open>Map\<close>: its entries in the order of their first
  insertion.
\<close>

definition countSpan ::
  "(string \<times> nat) list \<times> nat \<times> nat \<Rightarrow> TelemetrySpan \<Rightarrow> (string \<times> nat) list \<times> nat \<times> nat" where
  "countSpan acc sp =
     (case acc of (operations, errors, successes) \<Rightarrow>
        (let opName = operationName sp;
             operations' = AList.update opName
               ((case map_of operations opName of None \<Rightarrow> 0 | Some c \<Rightarrow> c) + 1) operations
         in if status sp = ''ERROR'' \<or> status sp = ''error''
            then (operations', errors + 1, successes)
            else (operations', errors, successes + 1)))"

text \<open>
  \<^verbatim>\<open>getStats\<close> allocates its arrays itself (\<^verbatim>\<open>map\<close>, \<^verbatim>\<open>Array.from\<close>, \<^verbatim>\<open>slice\<close>)
  and sorts those, so it reads the heap and returns a value. The size of the
  \<^verbatim>\<open>Set\<close> of service names is the number of distinct names. The comparator
  \<^verbatim>\<open>(a, b) => b.count - a.count\<close> sorts by descending count, and the sort is
  stable; the default sort of the timestamps compares strings by code unit.
\<close>

definition getStats :: "TelemetryStorage \<Rightarrow> TelemetryStats" where
  "getStats st =
     (let xs = heap st (spans st)
      in if length xs = 0
         then \<lparr>totalSpans = 0, uniqueServices = 0, uniqueOperations = 0,
               timeRange = \<lparr>earliest = None, latest = None\<rparr>,
               topOperations = [], errorCount = 0, successCount = 0\<rparr>
         else
           (let services = remdups (map serviceName xs);
                (operations, errors, successes) = foldl countSpan ([], 0, 0) xs;
                top = take 10 (sort_key (\<lambda>entry. - int (snd entry)) operations);
                timestamps = sort (map timestamp xs)
            in \<lparr>totalSpans = length xs,
                uniqueServices = length services,
                uniqueOperations = length operations,
                timeRange =
                  \<lparr>earliest = (case timestamps of [] \<Rightarrow> None
                                | t # _ \<Rightarrow> if t = [] then None else Some t),
                   latest = (if timestamps = [] \<or> last timestamps = [] then None
                             else Some (last timestamps))\<rparr>,
                topOperations = top,
                errorCount = errors,
                successCount = successes\<rparr>))"

subsection \<open>The wire format\<close>

text \<open>
  An identifier arrives as a string or as a byte array (\<^verbatim>\<open>Uint8Array | string\<close>),
  a timestamp as a string or as a number (\<^verbatim>\<open>string | number\<close>); either can be
  missing.
\<close>

datatype wire_id = IdAbsent | IdString string | IdBytes "8 word list"

datatype wire_nanos = NanosAbsent | NanosString string | NanosNumber real

text \<open>
  A JSON value that the decoder does not look into. A number is kept as the text
  that the runtime prints for it, and the members of an object are listed in the
  order in which the runtime enumerates them.
\<close>

datatype json =
  JNull | JBoolean bool | JNumber string | JString string
  | JArray "json list" | JObject "(string \<times> json) list"

text \<open>
  The \<^verbatim>\<open>value\<close> object of an attribute: the four members the decoder reads, and
  the members it does not read (\<^verbatim>\<open>arrayValue\<close>, \<^verbatim>\<open>kvlistValue\<close>,
  \<^verbatim>\<open>bytesValue\<close>, ...). A 64-bit \<^verbatim>\<open>intValue\<close> is a decimal string in OTLP/JSON.
\<close>

record AnyValue =
  stringValue :: "string option"
  intValue :: "string option"
  doubleValue :: "real option"
  boolValue :: "bool option"
  otherMembers :: "(string \<times> json) list"

record KeyValue =
  kv_key :: "string option"
  kv_value :: "AnyValue option"

record Resource =
  res_attributes :: "KeyValue list option"

record Status =
  status_code :: "number option"

record Event =
  event_name :: "string option"
  event_timeUnixNano :: wire_nanos
  event_attributes :: "KeyValue list option"

record Span =
  span_traceId :: wire_id
  span_spanId :: wire_id
  span_parentSpanId :: wire_id
  span_name :: "string option"
  span_startTimeUnixNano :: wire_nanos
  span_endTimeUnixNano :: wire_nanos
  span_status :: "Status option"
  span_attributes :: "KeyValue list option"
  span_events :: "Event list option"

record ScopeSpans =
  ss_spans :: "Span list option"

record ResourceSpans =
  rs_resource :: "Resource option"
  rs_scopeSpans :: "ScopeSpans list option"

record ExportTraceServiceRequest =
  resourceSpans :: "ResourceSpans list option"

text \<open>A payload is the request object, or a value that is not an object.\<close>

datatype primitive = PUndefined | PNull | PBoolean bool | PNumber number | PString string

datatype payload = NotObject primitive | Request ExportTraceServiceRequest

fun truthy :: "primitive \<Rightarrow> bool" where
  "truthy PUndefined = False"
| "truthy PNull = False"
| "truthy (PBoolean b) = b"
| "truthy (PNumber n) = (n \<noteq> NaN \<and> n \<noteq> Num 0)"
| "truthy (PString s) = (s \<noteq> [])"

text \<open>\<^verbatim>\<open>x || d\<close> for an optional string \<open>x\<close>.\<close>

fun orDefault :: "string option \<Rightarrow> string \<Rightarrow> string" where
  "orDefault None d = d"
| "orDefault (Some s) d = (if s = [] then d else s)"

subsection \<open>Runtime functions the decoder calls\<close>

text \<open>
  Rounding to a double. A real \<open>x\<close> other than \<open>0\<close> lies between
  \<open>2 ^ e\<close> and \<open>2 ^ (e + 1)\<close> in magnitude for its \<open>exponent e\<close>; the doubles
  there are the multiples of \<open>2 ^ (e - 52)\<close>, and below \<open>2 ^ (- 1022)\<close> those of
  \<open>2 ^ (- 1074)\<close>. \<open>x\<close> goes to the nearest multiple, to the even one of two
  that are equally near, and to an infinity when that is \<open>2 ^ 1024\<close> or more.
\<close>

definition roundHalfEven :: "real \<Rightarrow> int" where
  "roundHalfEven r =
     (let f = \<lfloor>r\<rfloor>; d = r - of_int f
      in if d < 1 / 2 then f else if 1 / 2 < d then f + 1 else if even f then f else f + 1)"

definition pow2 :: "int \<Rightarrow> real" where
  "pow2 e = (if 0 \<le> e then 2 ^ nat e else 1 / 2 ^ nat (- e))"

definition exponent :: "real \<Rightarrow> int" where
  "exponent a =
     (if 1 \<le> a then bitlen \<lfloor>a\<rfloor> - 1
      else (let j = bitlen \<lfloor>1 / a\<rfloor> - 1 in if a * 2 ^ nat j = 1 then - j else - j - 1))"

definition doubleOverflow :: real where
  "doubleOverflow = 2 ^ 1024"

definition toDouble :: "real \<Rightarrow> number" where
  "toDouble x =
     (if x = 0 then Num 0
      else (let e = max (exponent \<bar>x\<bar>) (- 1022);
                ulp = pow2 (e - 52);
                y = of_int (roundHalfEven (x / ulp)) * ulp
            in if doubleOverflow \<le> \<bar>y\<bar> then (if 0 < x then PosInfinity else NegInfinity)
               else Num y))"

text \<open>
  Arithmetic on numbers: \<open>NaN\<close> is absorbing, and so is the difference or the
  quotient of two infinities; the floor of a double is a double.
\<close>

fun negate_number :: "number \<Rightarrow> number" where
  "negate_number (Num a) = Num (- a)"
| "negate_number PosInfinity = NegInfinity"
| "negate_number NegInfinity = PosInfinity"
| "negate_number NaN = NaN"

fun divide_number :: "number \<Rightarrow> number \<Rightarrow> number" where
  "divide_number (Num a) (Num b) =
     (if b \<noteq> 0 then toDouble (a / b)
      else if a = 0 then NaN else if 0 < a then PosInfinity else NegInfinity)"
| "divide_number NaN _ = NaN"
| "divide_number _ NaN = NaN"
| "divide_number (Num a) _ = Num 0"
| "divide_number PosInfinity (Num b) = (if 0 \<le> b then PosInfinity else NegInfinity)"
| "divide_number NegInfinity (Num b) = (if 0 \<le> b then NegInfinity else PosInfinity)"
| "divide_number _ _ = NaN"

fun minus_number :: "number \<Rightarrow> number \<Rightarrow> number" where
  "minus_number (Num a) (Num b) = toDouble (a - b)"
| "minus_number NaN _ = NaN"
| "minus_number _ NaN = NaN"
| "minus_number PosInfinity PosInfinity = NaN"
| "minus_number NegInfinity NegInfinity = NaN"
| "minus_number PosInfinity _ = PosInfinity"
| "minus_number NegInfinity _ = NegInfinity"
| "minus_number _ PosInfinity = NegInfinity"
| "minus_number _ NegInfinity = PosInfinity"

fun Math_floor :: "number \<Rightarrow> number" where
  "Math_floor (Num a) = Num (of_int \<lfloor>a\<rfloor>)"
| "Math_floor n = n"

text \<open>
  \<^verbatim>\<open>parseInt(s)\<close> without a radix: leading white space is dropped, then a sign,
  then \<^verbatim>\<open>0x\<close> or \<^verbatim>\<open>0X\<close> selects radix 16; the longest prefix of digits of the
  radix is read, and the result is the double nearest to their value, with the
  sign, and \<open>NaN\<close> if there is no digit.
\<close>

definition isWhiteSpace :: "char \<Rightarrow> bool" where
  "isWhiteSpace c = (of_char c \<in> {9, 10, 11, 12, 13, 32, 160 :: nat})"

definition digitValue :: "char \<Rightarrow> nat option" where
  "digitValue c =
     (let n = (of_char c :: nat)
      in if 48 \<le> n \<and> n \<le> 57 then Some (n - 48)
         else if 97 \<le> n \<and> n \<le> 122 then Some (n - 87)
         else if 65 \<le> n \<and> n \<le> 90 then Some (n - 55)
         else None)"

definition isDigit :: "nat \<Rightarrow> char \<Rightarrow> bool" where
  "isDigit radix c = (case digitValue c of None \<Rightarrow> False | Some d \<Rightarrow> d < radix)"

definition digitsValue :: "nat \<Rightarrow> string \<Rightarrow> int" where
  "digitsValue radix ds = foldl (\<lambda>acc c. acc * int radix + int (the (digitValue c))) 0 ds"

definition parseInt :: "string \<Rightarrow> number" where
  "parseInt input =
     (let s = dropWhile isWhiteSpace input;
          negative = (s \<noteq> [] \<and> hd s = CHR ''-'');
          s1 = (if s \<noteq> [] \<and> (hd s = CHR ''-'' \<or> hd s = CHR ''+'') then tl s else s);
          hex = (take 2 s1 = ''0x'' \<or> take 2 s1 = ''0X'');
          radix = (if hex then 16 else 10);
          s2 = (if hex then drop 2 s1 else s1);
          ds = takeWhile (isDigit radix) s2
      in if ds = [] then NaN
         else if negative then negate_number (toDouble (of_int (digitsValue radix ds)))
         else toDouble (of_int (digitsValue radix ds)))"

text \<open>
  \<^verbatim>\<open>n.toString(16)\<close> and the decimal \<^verbatim>\<open>String(n)\<close> of a natural number;
  \<^verbatim>\<open>s.padStart(n, c)\<close> for a single character \<open>c\<close>; \<^verbatim>\<open>a.join(sep)\<close>.
\<close>

definition digitChar :: "nat \<Rightarrow> char" where
  "digitChar d = ''0123456789abcdefghijklmnopqrstuvwxyz'' ! d"

fun toString16 :: "nat \<Rightarrow> string" where
  "toString16 n = (if n < 16 then [digitChar n] else toString16 (n div 16) @ [digitChar (n mod 16)])"

fun toString10 :: "nat \<Rightarrow> string" where
  "toString10 n = (if n < 10 then [digitChar n] else toString10 (n div 10) @ [digitChar (n mod 10)])"

definition padStart :: "nat \<Rightarrow> char \<Rightarrow> string \<Rightarrow> string" where
  "padStart n c s = replicate (n - length s) c @ s"

fun join :: "string \<Rightarrow> string list \<Rightarrow> string" where
  "join sep [] = []"
| "join sep [x] = x"
| "join sep (x # y # ys) = x @ sep @ join sep (y # ys)"

text \<open>
  \<^verbatim>\<open>JSON.stringify\<close>: a string is quoted, with the quote, the backslash and the
  control characters escaped.
\<close>

definition quoteChar :: "char \<Rightarrow> string" where
  "quoteChar c =
     (let n = (of_char c :: nat)
      in if n = 34 then [CHR 0x5C, CHR 0x22]
         else if n = 92 then [CHR 0x5C, CHR 0x5C]
         else if n = 8 then [CHR 0x5C, CHR ''b'']
         else if n = 12 then [CHR 0x5C, CHR ''f'']
         else if n = 10 then [CHR 0x5C, CHR ''n'']
         else if n = 13 then [CHR 0x5C, CHR ''r'']
         else if n = 9 then [CHR 0x5C, CHR ''t'']
         else if n < 32 then [CHR 0x5C, CHR ''u'', CHR ''0'', CHR ''0''] @ padStart 2 (CHR ''0'') (toString16 n)
         else [c])"

definition quoteJSONString :: "string \<Rightarrow> string" where
  "quoteJSONString s = [CHR 0x22] @ concat (map quoteChar s) @ [CHR 0x22]"

fun JSON_stringify :: "json \<Rightarrow> string" where
  "JSON_stringify JNull = ''null''"
| "JSON_stringify (JBoolean b) = (if b then ''true'' else ''false'')"
| "JSON_stringify (JNumber n) = n"
| "JSON_stringify (JString s) = quoteJSONString s"
| "JSON_stringify (JArray xs) = ''['' @ join '','' (map JSON_stringify xs) @ '']''"
| "JSON_stringify (JObject ms) =
     ''{'' @ join '','' (map (\<lambda>m. quoteJSONString (fst m) @ '':'' @ JSON_stringify (snd m)) ms) @ ''}''"

text \<open>
  \<^verbatim>\<open>new Date(ms)\<close> keeps a time value, or none (an invalid date) when \<open>ms\<close> is
  \<open>NaN\<close>, an infinity or beyond 8.64e15 in magnitude; a fraction is cut off.
  \<^verbatim>\<open>toISOString()\<close> throws a \<^verbatim>\<open>RangeError\<close> on an invalid date and otherwise
  prints \<^verbatim>\<open>YYYY-MM-DDTHH:mm:ss.sssZ\<close>, the year with a sign and six digits
  outside 0..9999.
\<close>

definition TimeClip :: "number \<Rightarrow> int option" where
  "TimeClip t =
     (case t of
        Num r \<Rightarrow> if \<bar>r\<bar> > 8640000000000000 then None
                 else Some (if 0 \<le> r then \<lfloor>r\<rfloor> else \<lceil>r\<rceil>)
      | _ \<Rightarrow> None)"

definition pad10 :: "nat \<Rightarrow> int \<Rightarrow> string" where
  "pad10 width n = padStart width (CHR ''0'') (toString10 (nat n))"

definition isoFormat :: "int \<Rightarrow> string" where
  "isoFormat t =
     (let day = t div 86400000;
          msInDay = t mod 86400000;
          z = day + 719468;
          era = z div 146097;
          doe = z mod 146097;
          yoe = (doe - doe div 1460 + doe div 36524 - doe div 146096) div 365;
          doy = doe - (365 * yoe + yoe div 4 - yoe div 100);
          mp = (5 * doy + 2) div 153;
          d = doy - (153 * mp + 2) div 5 + 1;
          m = (if mp < 10 then mp + 3 else mp - 9);
          y = yoe + era * 400 + (if m \<le> 2 then 1 else 0);
          year = (if 0 \<le> y \<and> y \<le> 9999 then pad10 4 y
                  else (if y < 0 then ''-'' else ''+'') @ pad10 6 \<bar>y\<bar>)
      in year @ ''-'' @ pad10 2 m @ ''-'' @ pad10 2 d @ ''T''
         @ pad10 2 (msInDay div 3600000) @ '':''
         @ pad10 2 (msInDay div 60000 mod 60) @ '':''
         @ pad10 2 (msInDay div 1000 mod 60) @ ''.''
         @ pad10 3 (msInDay mod 1000) @ ''Z'')"

definition Date_toISOString :: "number \<Rightarrow> error + string" where
  "Date_toISOString ms =
     (case TimeClip ms of None \<Rightarrow> Inl RangeError | Some t \<Rightarrow> Inr (isoFormat t))"

subsection \<open>OTLPProcessor\<close>

text \<open>A missing timestamp is \<^verbatim>\<open>undefined\<close>, and \<^verbatim>\<open>undefined / 1000000\<close> is \<open>NaN\<close>.\<close>

fun nanosToMillis :: "wire_nanos \<Rightarrow> number" where
  "nanosToMillis (NanosString nanos) = Math_floor (divide_number (parseInt nanos) (Num 1000000))"
| "nanosToMillis (NanosNumber nanos) = Math_floor (divide_number (Num nanos) (Num 1000000))"
| "nanosToMillis NanosAbsent = Math_floor (divide_number NaN (Num 1000000))"

fun bytesToHex :: "wire_id \<Rightarrow> string" where
  "bytesToHex (IdString bytes) = bytes"
| "bytesToHex IdAbsent = []"
| "bytesToHex (IdBytes bytes) =
     (if length bytes = 0 then []
      else join [] (map (\<lambda>b. padStart 2 (CHR ''0'') (toString16 (unat b))) bytes))"

definition extractStatus :: "Status option \<Rightarrow> string" where
  "extractStatus st =
     (case st of None \<Rightarrow> ''OK''
      | Some s \<Rightarrow>
          if status_code s = Some (Num 0) then ''UNSET''
          else if status_code s = Some (Num 1) then ''OK''
          else if status_code s = Some (Num 2) then ''ERROR''
          else ''UNKNOWN'')"

text \<open>
  \<^verbatim>\<open>result[key] = v\<close> on the plain object \<open>result\<close>. A new key is added after
  the others and a key already there keeps its place. The key \<^verbatim>\<open>__proto__\<close> is
  not stored: the assignment reaches the accessor that every plain object
  inherits, which ignores a value that is not an object.
\<close>

definition assign :: "string \<Rightarrow> attr_value \<Rightarrow> attributes \<Rightarrow> attributes" where
  "assign k v result = (if k = ''__proto__'' then result else AList.update k v result)"

text \<open>
  The chain of \<^verbatim>\<open>!== undefined\<close> tests. In the last branch none of the four
  members is there, so the text of the object is the text of its other members.
\<close>

definition attributeValue :: "AnyValue \<Rightarrow> attr_value" where
  "attributeValue v =
     (if stringValue v \<noteq> None then AString (the (stringValue v))
      else if intValue v \<noteq> None then ANumber (parseInt (the (intValue v)))
      else if doubleValue v \<noteq> None then ANumber (Num (the (doubleValue v)))
      else if boolValue v \<noteq> None then ABoolean (the (boolValue v))
      else AString (JSON_stringify (JObject (otherMembers v))))"

text \<open>The \<^verbatim>\<open>for\<close> loop of \<^verbatim>\<open>extractAttributes\<close>, on \<open>result\<close>.\<close>

fun extractAttributes_loop :: "KeyValue list \<Rightarrow> attributes \<Rightarrow> attributes" where
  "extractAttributes_loop [] result = result"
| "extractAttributes_loop (attr # rest) result =
     (if kv_key attr = None \<or> kv_key attr = Some [] then extractAttributes_loop rest result
      else case kv_value attr of
             None \<Rightarrow> extractAttributes_loop rest result
           | Some v \<Rightarrow>
               extractAttributes_loop rest (assign (the (kv_key attr)) (attributeValue v) result))"

definition extractAttributes :: "KeyValue list option \<Rightarrow> attributes" where
  "extractAttributes as =
     (case as of None \<Rightarrow> [] | Some attrs \<Rightarrow> extractAttributes_loop attrs [])"

definition extractEvents :: "Event list option \<Rightarrow> SpanEvent list" where
  "extractEvents evs =
     (case evs of None \<Rightarrow> []
      | Some es \<Rightarrow>
          map (\<lambda>event. \<lparr>ev_name = orDefault (event_name event) ''unknown-event'',
                         ev_timestamp = nanosToMillis (event_timeUnixNano event),
                         ev_attributes = extractAttributes (event_attributes event)\<rparr>) es)"

text \<open>
  The \<^verbatim>\<open>for\<close> loop of \<^verbatim>\<open>extractServiceName\<close>: it returns at the first attribute
  whose key is \<^verbatim>\<open>service.name\<close>, with \<^verbatim>\<open>attr.value?.stringValue || 'unknown-service'\<close>.
\<close>

fun extractServiceName_loop :: "KeyValue list \<Rightarrow> string" where
  "extractServiceName_loop [] = ''unknown-service''"
| "extractServiceName_loop (attr # rest) =
     (if kv_key attr = Some ''service.name''
      then orDefault (case kv_value attr of None \<Rightarrow> None | Some v \<Rightarrow> stringValue v)
             ''unknown-service''
      else extractServiceName_loop rest)"

definition extractServiceName :: "Resource option \<Rightarrow> string" where
  "extractServiceName resource =
     (case resource of None \<Rightarrow> ''unknown-service''
      | Some r \<Rightarrow>
          (case res_attributes r of None \<Rightarrow> ''unknown-service''
           | Some attrs \<Rightarrow> extractServiceName_loop attrs))"

text \<open>
  \<^verbatim>\<open>span.parentSpanId ? ... : undefined\<close>: the test is for a truthy value, which
  a missing member and the empty string are not, and every array is.
\<close>

fun truthy_id :: "wire_id \<Rightarrow> bool" where
  "truthy_id IdAbsent = False"
| "truthy_id (IdString s) = (s \<noteq> [])"
| "truthy_id (IdBytes bs) = True"

text \<open>
  The members of the object literal are evaluated in order; the last one,
  \<^verbatim>\<open>new Date(startTimeMs).toISOString()\<close>, is the only one that can throw.
\<close>

definition convertSpan :: "Span \<Rightarrow> string \<Rightarrow> error + TelemetrySpan" where
  "convertSpan sp svc =
     (let startTimeMs = nanosToMillis (span_startTimeUnixNano sp);
          endTimeMs = nanosToMillis (span_endTimeUnixNano sp)
      in case Date_toISOString startTimeMs of
           Inl e \<Rightarrow> Inl e
         | Inr isoText \<Rightarrow>
             Inr \<lparr>traceId = bytesToHex (span_traceId sp),
                  spanId = bytesToHex (span_spanId sp),
                  parentSpanId = (if truthy_id (span_parentSpanId sp)
                                  then Some (bytesToHex (span_parentSpanId sp)) else None),
                  operationName = orDefault (span_name sp) ''unknown-operation'',
                  startTime = startTimeMs,
                  endTime = endTimeMs,
                  duration = minus_number endTimeMs startTimeMs,
                  status = extractStatus (span_status sp),
                  attributes = extractAttributes (span_attributes sp),
                  events = extractEvents (span_events sp),
                  serviceName = svc,
                  timestamp = isoText\<rparr>)"

text \<open>
  The three nested loops of \<^verbatim>\<open>processTraces\<close>. The \<^verbatim>\<open>catch\<close> logs and throws
  again, so an exception leaves the method, as \<open>Some\<close> of the error; the spans
  added before it stay in the store.
\<close>

fun processSpans :: "string \<Rightarrow> Span list \<Rightarrow> TelemetryStorage \<Rightarrow> error option \<times> TelemetryStorage" where
  "processSpans svc [] st = (None, st)"
| "processSpans svc (sp # rest) st =
     (case convertSpan sp svc of
        Inl e \<Rightarrow> (Some e, st)
      | Inr telemetrySpan \<Rightarrow> processSpans svc rest (addSpan telemetrySpan st))"

fun processScopeSpans ::
  "string \<Rightarrow> ScopeSpans list \<Rightarrow> TelemetryStorage \<Rightarrow> error option \<times> TelemetryStorage" where
  "processScopeSpans svc [] st = (None, st)"
| "processScopeSpans svc (scopeSpan # rest) st =
     (case ss_spans scopeSpan of
        None \<Rightarrow> processScopeSpans svc rest st
      | Some sps \<Rightarrow>
          (case processSpans svc sps st of
             (Some e, st') \<Rightarrow> (Some e, st')
           | (None, st') \<Rightarrow> processScopeSpans svc rest st'))"

fun processResourceSpans ::
  "ResourceSpans list \<Rightarrow> TelemetryStorage \<Rightarrow> error option \<times> TelemetryStorage" where
  "processResourceSpans [] st = (None, st)"
| "processResourceSpans (resourceSpan # rest) st =
     (let svc = extractServiceName (rs_resource resourceSpan)
      in case rs_scopeSpans resourceSpan of
           None \<Rightarrow> processResourceSpans rest st
         | Some sss \<Rightarrow>
             (case processScopeSpans svc sss st of
                (Some e, st') \<Rightarrow> (Some e, st')
              | (None, st') \<Rightarrow> processResourceSpans rest st'))"

text \<open>
  \<^verbatim>\<open>if (!data || !data.resourceSpans) return\<close>: a value that is not an object is
  falsy or has no member \<^verbatim>\<open>resourceSpans\<close>.
\<close>

definition processTraces :: "payload \<Rightarrow> TelemetryStorage \<Rightarrow> error option \<times> TelemetryStorage" where
  "processTraces data st =
     (case data of
        NotObject p \<Rightarrow> (if \<not> truthy p then (None, st) else (None, st))
      | Request r \<Rightarrow>
          (case resourceSpans r of
             None \<Rightarrow> (None, st)
           | Some rss \<Rightarrow> processResourceSpans rss st))"


declare toString16.simps [simp del] toString10.simps [simp del]

subsection \<open>The specification's wording, as definitions\<close>

text \<open>
  The definitions named \<open>spec_\<close> follow the sentences of the specification, not
  the code; those named \<open>amended_\<close> are the same sentences with the change
  that the code forces.
\<close>

text \<open>
  ``A byte sequence is rendered as lowercase hex, each byte zero-padded to two hex
  digits, concatenated with no separators; a string is passed through unchanged;
  an absent/empty value yields the empty string (for trace/span id) or
  \<^verbatim>\<open>undefined\<close> (for parent).''
\<close>

definition spec_hexByte :: "8 word \<Rightarrow> string" where
  "spec_hexByte b =
     [''0123456789abcdef'' ! (unat b div 16), ''0123456789abcdef'' ! (unat b mod 16)]"

definition spec_identifier :: "wire_id \<Rightarrow> string" where
  "spec_identifier w =
     (case w of IdAbsent \<Rightarrow> [] | IdString s \<Rightarrow> s
      | IdBytes bs \<Rightarrow> concat (map spec_hexByte bs))"

definition spec_isEmpty :: "wire_id \<Rightarrow> bool" where
  "spec_isEmpty w = (w = IdAbsent \<or> w = IdString [] \<or> w = IdBytes [])"

definition spec_parentSpanId :: "wire_id \<Rightarrow> string option" where
  "spec_parentSpanId w = (if spec_isEmpty w then None else Some (spec_identifier w))"

text \<open>Amended: only a missing parent and the empty string give \<^verbatim>\<open>undefined\<close>.\<close>

definition amended_parentSpanId :: "wire_id \<Rightarrow> string option" where
  "amended_parentSpanId w =
     (if w = IdAbsent \<or> w = IdString [] then None else Some (spec_identifier w))"

text \<open>
  ``Integer division by 1,000,000, truncating toward zero'', and the strings the
  sentence is about: one decimal digit or more. Amended: the nanosecond count is
  below \<open>2 ^ 53\<close> in magnitude, where every integer is a double.
\<close>

definition spec_truncDiv :: "int \<Rightarrow> int \<Rightarrow> int" where
  "spec_truncDiv a b = sgn a * sgn b * (\<bar>a\<bar> div \<bar>b\<bar>)"

definition isDecimalDigits :: "string \<Rightarrow> bool" where
  "isDecimalDigits s = (s \<noteq> [] \<and> list_all (isDigit 10) s)"

text \<open>
  ``A value is read from exactly one of \<^verbatim>\<open>stringValue\<close>, \<^verbatim>\<open>intValue\<close>,
  \<^verbatim>\<open>doubleValue\<close>, \<^verbatim>\<open>boolValue\<close>, checked in this order; if none of those
  four fields is present, the entire value object is serialized to its JSON text.''
\<close>

definition spec_attributeValue :: "AnyValue \<Rightarrow> attr_value" where
  "spec_attributeValue v =
     (case stringValue v of Some s \<Rightarrow> AString s
      | None \<Rightarrow> (case intValue v of Some i \<Rightarrow> ANumber (parseInt i)
      | None \<Rightarrow> (case doubleValue v of Some d \<Rightarrow> ANumber (Num d)
      | None \<Rightarrow> (case boolValue v of Some b \<Rightarrow> ABoolean b
      | None \<Rightarrow> AString (JSON_stringify (JObject (otherMembers v)))))))"

text \<open>``Skip entries with no key or no value object.''\<close>

definition spec_entryKept :: "KeyValue \<Rightarrow> bool" where
  "spec_entryKept a = (kv_key a \<noteq> None \<and> kv_value a \<noteq> None)"

text \<open>Amended: an entry whose key is the empty string is skipped as well.\<close>

definition amended_entryKept :: "KeyValue \<Rightarrow> bool" where
  "amended_entryKept a = (kv_key a \<noteq> None \<and> kv_key a \<noteq> Some [] \<and> kv_value a \<noteq> None)"

text \<open>
  ``Last write wins if the wire payload repeats a key'': the mapping of the kept
  entries, looked up from the last entry backwards.
\<close>

definition lastWins :: "(KeyValue \<Rightarrow> bool) \<Rightarrow> KeyValue list \<Rightarrow> (string \<rightharpoonup> attr_value)" where
  "lastWins kept attrs =
     map_of (rev (map (\<lambda>a. (the (kv_key a), spec_attributeValue (the (kv_value a))))
                    (filter kept attrs)))"

definition spec_extractAttributes :: "KeyValue list \<Rightarrow> (string \<rightharpoonup> attr_value)" where
  "spec_extractAttributes attrs = lastWins spec_entryKept attrs"

definition amended_extractAttributes :: "KeyValue list \<Rightarrow> (string \<rightharpoonup> attr_value)" where
  "amended_extractAttributes attrs = lastWins amended_entryKept attrs"

text \<open>
  ``Scanning that group's resource attributes for a key literally equal to
  \<^verbatim>\<open>service.name\<close>, taking its string value, defaulting to
  \<^verbatim>\<open>"unknown-service"\<close> if not found or not a string''; any string, the empty one
  too, is taken as it is.
\<close>

definition resourceAttributes :: "Resource option \<Rightarrow> KeyValue list" where
  "resourceAttributes resource =
     (case resource of None \<Rightarrow> []
      | Some r \<Rightarrow> (case res_attributes r of None \<Rightarrow> [] | Some attrs \<Rightarrow> attrs))"

definition spec_extractServiceName :: "Resource option \<Rightarrow> string" where
  "spec_extractServiceName resource =
     (case find (\<lambda>a. kv_key a = Some ''service.name'') (resourceAttributes resource) of
        None \<Rightarrow> ''unknown-service''
      | Some a \<Rightarrow>
          (case kv_value a of None \<Rightarrow> ''unknown-service''
           | Some v \<Rightarrow> (case stringValue v of None \<Rightarrow> ''unknown-service'' | Some s \<Rightarrow> s)))"

text \<open>Amended: the empty string gives the default too.\<close>

definition amended_extractServiceName :: "Resource option \<Rightarrow> string" where
  "amended_extractServiceName resource =
     (case find (\<lambda>a. kv_key a = Some ''service.name'') (resourceAttributes resource) of
        None \<Rightarrow> ''unknown-service''
      | Some a \<Rightarrow>
          (case kv_value a of None \<Rightarrow> ''unknown-service''
           | Some v \<Rightarrow>
               (case stringValue v of None \<Rightarrow> ''unknown-service''
                | Some s \<Rightarrow> if s = [] then ''unknown-service'' else s)))"

text \<open>``Status ERROR (case-insensitive on the raw wire string).''\<close>

definition toUpperCase :: "string \<Rightarrow> string" where
  "toUpperCase s =
     map (\<lambda>c. if 97 \<le> (of_char c :: nat) \<and> (of_char c :: nat) \<le> 122
               then char_of ((of_char c :: nat) - 32) else c) s"

definition spec_isError :: "string \<Rightarrow> bool" where
  "spec_isError s = (toUpperCase s = ''ERROR'')"

text \<open>The two spellings the code compares with.\<close>

definition isError :: "string \<Rightarrow> bool" where
  "isError s = (s = ''ERROR'' \<or> s = ''error'')"

text \<open>A read leaves the store as it was.\<close>

definition unchanged :: "TelemetryStorage \<Rightarrow> TelemetryStorage \<Rightarrow> bool" where
  "unchanged st st' =
     (held st' = held st \<and> spans st' = spans st \<and> maxSpans st' = maxSpans st
      \<and> heap st' (spans st) = heap st (spans st))"

subsection \<open>Example values\<close>

definition exampleSpan :: "string \<Rightarrow> string \<Rightarrow> string \<Rightarrow> string \<Rightarrow> TelemetrySpan" where
  "exampleSpan sid opn stat svc =
     \<lparr>traceId = ''0af7651916cd43dd8448eb211c80319c'', spanId = sid, parentSpanId = None,
      operationName = opn, startTime = Num 1000, endTime = Num 1002, duration = Num 2,
      status = stat, attributes = [], events = [], serviceName = svc,
      timestamp = ''1970-01-01T00:00:01.000Z''\<rparr>"

definition exampleWireSpan :: "wire_id \<Rightarrow> wire_id \<Rightarrow> wire_id \<Rightarrow> wire_nanos \<Rightarrow> Span" where
  "exampleWireSpan tid sid pid start =
     \<lparr>span_traceId = tid, span_spanId = sid, span_parentSpanId = pid,
      span_name = Some ''GET /api/data'', span_startTimeUnixNano = start,
      span_endTimeUnixNano = NanosString ''1002000000'', span_status = None,
      span_attributes = None, span_events = None\<rparr>"

text \<open>A root span whose identifiers arrive as bytes, as a string and as no bytes.\<close>

definition exampleRootSpan :: Span where
  "exampleRootSpan =
     exampleWireSpan (IdBytes [0x1f, 0x0a]) (IdString ''00f067aa0ba902b7'') (IdBytes [])
       (NanosString ''1000000000'')"

definition exampleDecoded :: TelemetrySpan where
  "exampleDecoded =
     \<lparr>traceId = ''1f0a'', spanId = ''00f067aa0ba902b7'', parentSpanId = Some [],
      operationName = ''GET /api/data'', startTime = Num 1000, endTime = Num 1002,
      duration = Num 2, status = ''OK'', attributes = [], events = [], serviceName = ''app'',
      timestamp = ''1970-01-01T00:00:01.000Z''\<rparr>"

definition exampleValue :: AnyValue where
  "exampleValue =
     \<lparr>stringValue = None, intValue = None, doubleValue = None, boolValue = None,
      otherMembers = []\<rparr>"

definition stringAttr :: "string \<Rightarrow> string \<Rightarrow> KeyValue" where
  "stringAttr k s = \<lparr>kv_key = Some k, kv_value = Some (exampleValue\<lparr>stringValue := Some s\<rparr>)\<rparr>"

text \<open>
  \<^verbatim>\<open>[{key:"a", value:{intValue:"5"}}, {key:"b", value:{boolValue:true}},\<close>
  \<^verbatim>\<open>{key:"", value:{stringValue:"skipped"}}, {key:"c"},\<close>
  \<^verbatim>\<open>{key:"a", value:{intValue:"7", doubleValue:1.5}}, {key:"d", value:{arrayValue:{values:[]}}}]\<close>
\<close>

definition exampleAttributes :: "KeyValue list" where
  "exampleAttributes =
     [\<lparr>kv_key = Some ''a'', kv_value = Some (exampleValue\<lparr>intValue := Some ''5''\<rparr>)\<rparr>,
      \<lparr>kv_key = Some ''b'', kv_value = Some (exampleValue\<lparr>boolValue := Some True\<rparr>)\<rparr>,
      stringAttr [] ''skipped'',
      \<lparr>kv_key = Some ''c'', kv_value = None\<rparr>,
      \<lparr>kv_key = Some ''a'',
       kv_value = Some (exampleValue\<lparr>intValue := Some ''7'', doubleValue := Some 1.5\<rparr>)\<rparr>,
      \<lparr>kv_key = Some ''d'',
       kv_value = Some (exampleValue\<lparr>otherMembers :=
         [(''arrayValue'', JObject [(''values'', JArray [])])]\<rparr>)\<rparr>]"

text \<open>
  A span with a name, identifiers and an end time, and no \<^verbatim>\<open>startTimeUnixNano\<close>.
\<close>

definition spanWithoutStartTime :: Span where
  "spanWithoutStartTime =
     exampleWireSpan (IdString ''5b8efff798038103d269b633813fc60c'') (IdString ''eee19b7ec3c1b174'')
       IdAbsent NanosAbsent"

text \<open>
  \<^verbatim>\<open>{"resourceSpans": [{"scopeSpans": [{"spans": [sp]}]}]}\<close>: one span, in a
  group without a resource.
\<close>

definition requestOf :: "Span \<Rightarrow> payload" where
  "requestOf sp =
     Request \<lparr>resourceSpans =
       Some [\<lparr>rs_resource = None, rs_scopeSpans = Some [\<lparr>ss_spans = Some [sp]\<rparr>]\<rparr>]\<rparr>"

section \<open>Evaluation\<close>

text \<open>The bound \<open>2 ^ 1024\<close> as a numeral, for evaluating \<open>toDouble\<close>.\<close>

lemma doubleOverflow_numeral [code]:
  "doubleOverflow = 179769313486231590772930519078902473361797697894230657273430081157732675805500963132708477322407536021120113879871393357658789768814416622492847430639474124377767893424865485276302219601246094119453082952085005768838150682342462881473913110540827237163350510684586298239947245938479716304835356329624224137216"
  by (simp add: doubleOverflow_def)

section \<open>The store\<close>

subsection \<open>What \<open>addSpan\<close> and the reads do to the held sequence\<close>

lemma addSpan_held:
  "held (addSpan sp st) =
     (if maxSpans st < int (length (held st)) + 1
      then Array_slice (- maxSpans st) (held st @ [sp]) else held st @ [sp])"
  by (simp add: addSpan_def held_def push_def new_array_def Let_def)

lemma addSpan_maxSpans: "maxSpans (addSpan sp st) = maxSpans st"
  by (simp add: addSpan_def push_def new_array_def Let_def)

lemma addSpan_allocated: "allocated st \<Longrightarrow> allocated (addSpan sp st)"
  by (simp add: addSpan_def push_def new_array_def Let_def allocated_def)

lemma allocated_new: "allocated TelemetryStorage_new"
  by (simp add: allocated_def TelemetryStorage_new_def)

lemma held_new: "held TelemetryStorage_new = []"
  by (simp add: held_def TelemetryStorage_new_def)

lemma Array_slice_neg: "0 < m \<Longrightarrow> Array_slice (- m) xs = drop (length xs - nat m) xs"
  by (auto simp: Array_slice_def Let_def max_def intro!: arg_cong2[where f=drop])

lemma addSpan_held_pos:
  assumes "0 < maxSpans st"
  shows "held (addSpan sp st) = drop (length (held st) + 1 - nat (maxSpans st)) (held st @ [sp])"
  using assms by (auto simp: addSpan_held Array_slice_neg)

lemma drop_oldest_step:
  assumes "0 < (m::nat)"
  shows "drop (length (drop (length ys - m) ys) + 1 - m) (drop (length ys - m) ys @ [x])
         = drop (length ys + 1 - m) (ys @ [x])"
proof (cases "length ys \<le> m")
  case True
  then show ?thesis by simp
next
  case False
  then have "length ys - (length ys - m) = m" and "Suc (length ys) - m = Suc (length ys - m)"
    by simp_all
  then show ?thesis using False assms by simp
qed

text \<open>
  A sequence of appends keeps the last \<open>maxSpans\<close> spans, for every positive
  \<open>maxSpans\<close> and every store that is not over its capacity.
\<close>

lemma addSpans_held:
  assumes "0 < maxSpans st" and "int (length (held st)) \<le> maxSpans st"
  shows "held (foldl (\<lambda>s x. addSpan x s) st xs)
         = drop (length (held st @ xs) - nat (maxSpans st)) (held st @ xs)
       \<and> maxSpans (foldl (\<lambda>s x. addSpan x s) st xs) = maxSpans st"
proof (induction xs rule: rev_induct)
  case Nil
  then show ?case using assms by simp
next
  case (snoc x xs)
  let ?st = "foldl (\<lambda>s x. addSpan x s) st xs"
  let ?m = "nat (maxSpans st)"
  let ?ys = "held st @ xs"
  from snoc have h: "held ?st = drop (length ?ys - ?m) ?ys" and m: "maxSpans ?st = maxSpans st"
    by simp_all
  have "0 < ?m" using assms by simp
  have "held (addSpan x ?st) = drop (length (held ?st) + 1 - ?m) (held ?st @ [x])"
    using addSpan_held_pos[of ?st x] m assms by simp
  also have "\<dots> = drop (length ?ys + 1 - ?m) (?ys @ [x])"
    unfolding h using drop_oldest_step[OF \<open>0 < ?m\<close>, of ?ys x] .
  finally show ?case using m by (simp add: addSpan_maxSpans)
qed

lemma addSpans_allocated:
  "allocated st \<Longrightarrow> allocated (foldl (\<lambda>s x. addSpan x s) st xs)"
  by (induction xs rule: rev_induct) (simp_all add: addSpan_allocated)

lemma returned_getSpansByService:
  "returned (getSpansByService n st) = filter (\<lambda>sp. serviceName sp = n) (held st)"
  by (simp add: returned_def getSpansByService_def new_array_def held_def)

lemma returned_getSpansByOperation:
  "returned (getSpansByOperation n st) = filter (\<lambda>sp. operationName sp = n) (held st)"
  by (simp add: returned_def getSpansByOperation_def new_array_def held_def)

lemma returned_getAllSpans:
  "allocated st \<Longrightarrow> returned (getAllSpans st) = rev (held st)"
  by (simp add: returned_def getAllSpans_def new_array_def reverse_def held_def Let_def allocated_def)

subsection \<open>Capacity\<close>

text \<open>
  Claim C1. The store is created empty with \<open>maxSpans = 10000\<close>. After
  \<open>maxSpans + k\<close> appends it holds exactly \<open>maxSpans\<close> spans: the appended
  sequence without its first \<open>k\<close> elements, in the order of insertion, and
  \<open>getSpansByService\<close> and \<open>getSpansByOperation\<close> return the matching ones
  among them in that order.
\<close>

theorem addSpan_keeps_last_maxSpans:
  assumes "int (length xs) = maxSpans TelemetryStorage_new + int k"
  shows "(let st = foldl (\<lambda>s x. addSpan x s) TelemetryStorage_new xs
          in int (length (held st)) = maxSpans TelemetryStorage_new
           \<and> held st = drop k xs
           \<and> (\<forall>n. returned (getSpansByService n st)
                    = filter (\<lambda>sp. serviceName sp = n) (drop k xs))
           \<and> (\<forall>n. returned (getSpansByOperation n st)
                    = filter (\<lambda>sp. operationName sp = n) (drop k xs)))"
proof -
  have m: "maxSpans TelemetryStorage_new = 10000"
    by (simp add: TelemetryStorage_new_def)
  have k: "k = length xs - 10000" and l: "10000 \<le> length xs" using assms m by simp_all
  have "held (foldl (\<lambda>s x. addSpan x s) TelemetryStorage_new xs) = drop k xs"
    using addSpans_held[of TelemetryStorage_new xs] m held_new k by simp
  then show ?thesis using l k m
    by (simp add: Let_def returned_getSpansByService returned_getSpansByOperation)
qed

text \<open>Ten thousand and one appends: the first span is the one discarded.\<close>

theorem addSpan_keeps_last_maxSpans_witness:
  "held (foldl (\<lambda>s x. addSpan x s) TelemetryStorage_new
          (exampleSpan ''00'' ''GET'' ''OK'' ''app''
           # replicate 9999 (exampleSpan ''01'' ''GET'' ''OK'' ''app'')
           @ [exampleSpan ''02'' ''PUT'' ''OK'' ''app'']))
   = replicate 9999 (exampleSpan ''01'' ''GET'' ''OK'' ''app'')
     @ [exampleSpan ''02'' ''PUT'' ''OK'' ''app'']"
  using addSpan_keeps_last_maxSpans
    [of "exampleSpan ''00'' ''GET'' ''OK'' ''app''
         # replicate 9999 (exampleSpan ''01'' ''GET'' ''OK'' ''app'')
         @ [exampleSpan ''02'' ''PUT'' ''OK'' ''app'']" 1]
  by (simp add: TelemetryStorage_new_def Let_def)







subsection \<open>Reads\<close>

text \<open>
  Claim C9. \<open>getAllSpans\<close> returns the held spans in the reverse of the order of
  insertion, the most recent first; after \<open>S1\<close> then \<open>S2\<close> are appended to a new
  store it returns \<open>[S2, S1]\<close>.
\<close>

theorem getAllSpans_most_recent_first:
  assumes "allocated st"
  shows "returned (getAllSpans st) = rev (held st)
       \<and> returned (getAllSpans (addSpan S2 (addSpan S1 TelemetryStorage_new))) = [S2, S1]"
proof -
  have "held (addSpan S2 (addSpan S1 TelemetryStorage_new)) = [S1, S2]"
    by (simp add: addSpan_held addSpan_maxSpans held_new) (simp add: TelemetryStorage_new_def)
  then show ?thesis
    using assms
      returned_getAllSpans[OF addSpan_allocated[OF addSpan_allocated[OF allocated_new]], of S2 S1]
    by (simp add: returned_getAllSpans)
qed

theorem getAllSpans_most_recent_first_witness:
  "allocated (addSpan (exampleSpan ''01'' ''GET'' ''OK'' ''app'') TelemetryStorage_new)
   \<and> returned (getAllSpans (addSpan (exampleSpan ''01'' ''GET'' ''OK'' ''app'') TelemetryStorage_new))
     = [exampleSpan ''01'' ''GET'' ''OK'' ''app'']
   \<and> returned (getAllSpans (addSpan (exampleSpan ''02'' ''PUT'' ''OK'' ''app'')
        (addSpan (exampleSpan ''01'' ''GET'' ''OK'' ''app'') TelemetryStorage_new)))
     = [exampleSpan ''02'' ''PUT'' ''OK'' ''app'', exampleSpan ''01'' ''GET'' ''OK'' ''app'']"
proof -
  let ?s1 = "exampleSpan ''01'' ''GET'' ''OK'' ''app''"
  let ?s2 = "exampleSpan ''02'' ''PUT'' ''OK'' ''app''"
  have a: "allocated (addSpan ?s1 TelemetryStorage_new)"
    by (rule addSpan_allocated[OF allocated_new])
  have h: "held (addSpan ?s1 TelemetryStorage_new) = [?s1]"
    by (simp add: addSpan_held held_new) (simp add: TelemetryStorage_new_def)
  show ?thesis
    using a getAllSpans_most_recent_first[OF a, of ?s2 ?s1] by (simp add: h)
qed

text \<open>
  Claim C10. The reads that return an array allocate the array they return:
  \<open>getAllSpans\<close> and \<open>getRecentSpans\<close> reverse a copy, the two filters build a
  new array. After each of them the store refers to the same array, with the same
  contents, and has the same \<open>maxSpans\<close>. \<open>getTotalSpans\<close> and \<open>getStats\<close>
  only read the heap: they are functions from the store to their result.
\<close>

theorem reads_leave_store_unchanged:
  assumes "allocated st"
  shows "unchanged st (snd (getAllSpans st))
       \<and> unchanged st (snd (getRecentSpans limit st))
       \<and> unchanged st (snd (getSpansByService name st))
       \<and> unchanged st (snd (getSpansByOperation name st))"
  using assms
  by (simp add: unchanged_def getAllSpans_def getRecentSpans_def getSpansByService_def
      getSpansByOperation_def new_array_def reverse_def held_def allocated_def Let_def)

text \<open>After a read the held sequence is still in the order of insertion.\<close>

theorem reads_leave_store_unchanged_witness:
  "held (snd (getAllSpans (addSpan (exampleSpan ''02'' ''PUT'' ''OK'' ''app'')
        (addSpan (exampleSpan ''01'' ''GET'' ''OK'' ''app'') TelemetryStorage_new))))
     = [exampleSpan ''01'' ''GET'' ''OK'' ''app'', exampleSpan ''02'' ''PUT'' ''OK'' ''app'']
   \<and> held (snd (getRecentSpans (Some 1) (addSpan (exampleSpan ''02'' ''PUT'' ''OK'' ''app'')
        (addSpan (exampleSpan ''01'' ''GET'' ''OK'' ''app'') TelemetryStorage_new))))
     = [exampleSpan ''01'' ''GET'' ''OK'' ''app'', exampleSpan ''02'' ''PUT'' ''OK'' ''app'']"
proof -
  let ?s1 = "exampleSpan ''01'' ''GET'' ''OK'' ''app''"
  let ?s2 = "exampleSpan ''02'' ''PUT'' ''OK'' ''app''"
  let ?st = "addSpan ?s2 (addSpan ?s1 TelemetryStorage_new)"
  have a: "allocated ?st"
    by (rule addSpan_allocated[OF addSpan_allocated[OF allocated_new]])
  have h: "held ?st = [?s1, ?s2]"
    by (simp add: addSpan_held addSpan_maxSpans held_new) (simp add: TelemetryStorage_new_def)
  show ?thesis
    using reads_leave_store_unchanged[OF a, of "Some 1"] by (simp add: unchanged_def h)
qed

subsection \<open>Statistics\<close>

lemma countSpan_step:
  "countSpan (ops, e, s) x =
     (AList.update (operationName x)
        ((case map_of ops (operationName x) of None \<Rightarrow> 0 | Some c \<Rightarrow> c) + 1) ops,
      e + (if isError (status x) then 1 else 0),
      s + (if isError (status x) then 0 else 1))"
  by (simp add: countSpan_def isError_def Let_def)

lemma foldl_countSpan:
  "foldl countSpan (ops, e, s) xs = (ops', e', s') \<Longrightarrow>
     e' = e + length (filter (\<lambda>sp. isError (status sp)) xs)
   \<and> s' = s + length (filter (\<lambda>sp. \<not> isError (status sp)) xs)"
proof (induction xs arbitrary: ops e s)
  case Nil
  then show ?case by simp
next
  case (Cons x xs)
  from Cons.prems have "foldl countSpan (countSpan (ops, e, s) x) xs = (ops', e', s')"
    by simp
  then show ?case
    unfolding countSpan_step by (drule_tac Cons.IH) simp
qed

lemma getStats_counts:
  "errorCount (getStats st) = length (filter (\<lambda>sp. isError (status sp)) (held st))
   \<and> successCount (getStats st) = length (filter (\<lambda>sp. \<not> isError (status sp)) (held st))"
proof (cases "held st = []")
  case True
  then show ?thesis by (simp add: getStats_def held_def)
next
  case False
  obtain ops e s where f: "foldl countSpan ([], 0, 0) (held st) = (ops, e, s)"
    by (cases "foldl countSpan ([], 0, 0) (held st)") auto
  from foldl_countSpan[OF f] False f show ?thesis
    by (simp add: getStats_def held_def Let_def)
qed

lemma length_filter_status:
  "length (filter (\<lambda>sp. P (status sp)) xs) = length (filter P (map status xs))"
  by (induction xs) simp_all

text \<open>
  Claim C7, as stated, fails on \<open>getStats\<close>: a held span whose status is
  \<^verbatim>\<open>Error\<close> matches \<^verbatim>\<open>ERROR\<close> without regard to case, and is counted as a
  success.
\<close>

theorem getStats_mixed_case_counterexample:
  "errorCount (getStats (addSpan (exampleSpan ''01'' ''GET'' ''Error'' ''app'') TelemetryStorage_new)) = 0
   \<and> length (filter (\<lambda>sp. spec_isError (status sp))
        (held (addSpan (exampleSpan ''01'' ''GET'' ''Error'' ''app'') TelemetryStorage_new))) = 1"
proof -
  let ?s = "exampleSpan ''01'' ''GET'' ''Error'' ''app''"
  have h: "held (addSpan ?s TelemetryStorage_new) = [?s]"
    by (simp add: addSpan_held held_new) (simp add: TelemetryStorage_new_def)
  have s: "status ?s = ''Error''" by (simp add: exampleSpan_def)
  have u: "spec_isError ''Error''" by code_simp
  have e: "\<not> isError ''Error''" by (simp add: isError_def)
  show ?thesis using getStats_counts[of "addSpan ?s TelemetryStorage_new"]
    by (simp add: h s u e)
qed

text \<open>
  Claim C7, amended. \<open>errorCount\<close> is the number of held spans whose status is
  exactly \<^verbatim>\<open>ERROR\<close> or exactly \<^verbatim>\<open>error\<close>, \<open>successCount\<close> the number of all
  the others; for the statuses \<^verbatim>\<open>["OK","ERROR","error","OK"]\<close> they are 2 and 2.
\<close>

theorem getStats_counts_errors:
  "errorCount (getStats st) = length (filter (\<lambda>sp. isError (status sp)) (held st))
   \<and> successCount (getStats st) = length (filter (\<lambda>sp. \<not> isError (status sp)) (held st))
   \<and> (map status (held st) = [''OK'', ''ERROR'', ''error'', ''OK''] \<longrightarrow>
        errorCount (getStats st) = 2 \<and> successCount (getStats st) = 2)"
proof -
  have "length (filter (\<lambda>sp. isError (status sp)) (held st)) = 2
      \<and> length (filter (\<lambda>sp. \<not> isError (status sp)) (held st)) = 2"
    if "map status (held st) = [''OK'', ''ERROR'', ''error'', ''OK'']"
    using that length_filter_status[of isError "held st"]
      length_filter_status[of "\<lambda>s. \<not> isError s" "held st"]
    by (simp add: isError_def)
  then show ?thesis using getStats_counts[of st] by simp
qed

theorem getStats_counts_errors_witness:
  "errorCount (getStats (foldl (\<lambda>s x. addSpan x s) TelemetryStorage_new
      [exampleSpan ''01'' ''GET'' ''OK'' ''app'', exampleSpan ''02'' ''GET'' ''ERROR'' ''app'',
       exampleSpan ''03'' ''GET'' ''error'' ''app'', exampleSpan ''04'' ''GET'' ''OK'' ''app''])) = 2
   \<and> successCount (getStats (foldl (\<lambda>s x. addSpan x s) TelemetryStorage_new
      [exampleSpan ''01'' ''GET'' ''OK'' ''app'', exampleSpan ''02'' ''GET'' ''ERROR'' ''app'',
       exampleSpan ''03'' ''GET'' ''error'' ''app'', exampleSpan ''04'' ''GET'' ''OK'' ''app''])) = 2"
proof -
  let ?xs = "[exampleSpan ''01'' ''GET'' ''OK'' ''app'', exampleSpan ''02'' ''GET'' ''ERROR'' ''app'',
       exampleSpan ''03'' ''GET'' ''error'' ''app'', exampleSpan ''04'' ''GET'' ''OK'' ''app'']"
  have h: "held (foldl (\<lambda>s x. addSpan x s) TelemetryStorage_new ?xs) = ?xs"
    using addSpans_held[of TelemetryStorage_new ?xs]
    by (simp add: held_new) (simp add: TelemetryStorage_new_def)
  have m: "map status ?xs = [''OK'', ''ERROR'', ''error'', ''OK'']"
    by (simp add: exampleSpan_def)
  show ?thesis
    using getStats_counts_errors[of "foldl (\<lambda>s x. addSpan x s) TelemetryStorage_new ?xs"]
    unfolding h m by simp
qed

section \<open>The decoder\<close>

subsection \<open>Identifiers\<close>

lemma digitChar_hex: "n < 16 \<Longrightarrow> digitChar n = ''0123456789abcdef'' ! n"
proof -
  assume n: "n < 16"
  have "''0123456789abcdefghijklmnopqrstuvwxyz'' = ''0123456789abcdef'' @ ''ghijklmnopqrstuvwxyz''"
    by simp
  then have "digitChar n = (''0123456789abcdef'' @ ''ghijklmnopqrstuvwxyz'') ! n"
    unfolding digitChar_def by (rule arg_cong)
  also have "\<dots> = ''0123456789abcdef'' ! n" using n by (simp only: nth_append) simp
  finally show ?thesis .
qed

text \<open>Two digits for every byte: \<^verbatim>\<open>padStart\<close> adds the zero below 16.\<close>

lemma toString16_byte:
  "padStart 2 (CHR ''0'') (toString16 (unat (b :: 8 word))) = spec_hexByte b"
proof -
  have lt: "unat b < 256" using unsigned_less[of b, where ?'a=nat] by simp
  show ?thesis
  proof (cases "unat b < 16")
    case True
    then show ?thesis
      by (simp add: toString16.simps[of "unat b"] padStart_def spec_hexByte_def digitChar_hex)
  next
    case False
    with lt have d: "unat b div 16 < 16" by simp
    have "toString16 (unat b) = [digitChar (unat b div 16), digitChar (unat b mod 16)]"
      using False d by (simp add: toString16.simps[of "unat b"] toString16.simps[of "unat b div 16"])
    then show ?thesis using d
      by (simp add: padStart_def spec_hexByte_def digitChar_hex)
  qed
qed

lemma join_Nil: "join [] xs = concat xs"
  by (induction "[]::string" xs rule: join.induct) simp_all

lemma bytesToHex_spec: "bytesToHex w = spec_identifier w"
  by (cases w) (simp_all add: spec_identifier_def join_Nil toString16_byte)

lemma truthy_parentSpanId:
  "(if truthy_id w then Some (bytesToHex w) else None) = amended_parentSpanId w"
  by (cases w) (simp_all add: amended_parentSpanId_def bytesToHex_spec)

lemma convertSpan_example: "convertSpan exampleRootSpan ''app'' = Inr exampleDecoded"
  by code_simp

text \<open>
  Claim C4, as stated, fails on \<open>convertSpan\<close>: an empty byte array is an
  object, so it is truthy, and the parent of the decoded span is the empty string,
  not \<^verbatim>\<open>undefined\<close>.
\<close>

theorem parentSpanId_empty_bytes_counterexample:
  "span_parentSpanId exampleRootSpan = IdBytes []
   \<and> map_sum id parentSpanId (convertSpan exampleRootSpan ''app'') = Inr (Some [])
   \<and> spec_parentSpanId (span_parentSpanId exampleRootSpan) = None"
  by (simp add: convertSpan_example)
     (simp add: exampleRootSpan_def exampleWireSpan_def exampleDecoded_def
        spec_parentSpanId_def spec_isEmpty_def)

text \<open>
  Claim C4, amended. In every decoded span \<open>traceId\<close> and \<open>spanId\<close> are the
  wire value rendered as the specification says: a byte sequence as two lowercase
  hex digits for each byte, a string unchanged, a missing or empty value as the
  empty string. \<open>parentSpanId\<close> is \<^verbatim>\<open>undefined\<close> for a missing value and for
  the empty string, and the same rendering otherwise, which for an empty byte
  sequence is the empty string. The bytes \<^verbatim>\<open>[0x1f, 0x0a]\<close> become \<^verbatim>\<open>1f0a\<close>.
\<close>

theorem convertSpan_identifiers:
  assumes "convertSpan sp svc = Inr t"
  shows "traceId t = spec_identifier (span_traceId sp)
       \<and> spanId t = spec_identifier (span_spanId sp)
       \<and> parentSpanId t = amended_parentSpanId (span_parentSpanId sp)
       \<and> spec_identifier (IdBytes [0x1f, 0x0a]) = ''1f0a''"
proof -
  have e: "spec_identifier (IdBytes [0x1f, 0x0a]) = ''1f0a''"
    by (simp add: spec_identifier_def spec_hexByte_def)
  from assms show ?thesis
    by (auto simp: convertSpan_def Let_def bytesToHex_spec truthy_parentSpanId e split: sum.splits)
qed

theorem convertSpan_identifiers_witness:
  "convertSpan exampleRootSpan ''app'' = Inr exampleDecoded
   \<and> traceId exampleDecoded = spec_identifier (IdBytes [0x1f, 0x0a])
   \<and> spanId exampleDecoded = spec_identifier (IdString ''00f067aa0ba902b7'')
   \<and> parentSpanId exampleDecoded = amended_parentSpanId (IdBytes [])"
  using convertSpan_identifiers[OF convertSpan_example] convertSpan_example
  by (simp add: exampleRootSpan_def exampleWireSpan_def)

subsection \<open>Timestamps\<close>

lemma roundHalfEven_of_int: "roundHalfEven (of_int m) = m"
  by (simp add: roundHalfEven_def)

lemma roundHalfEven_bounds:
  "\<lfloor>r\<rfloor> \<le> roundHalfEven r" "\<bar>of_int (roundHalfEven r) - r\<bar> \<le> 1 / 2"
proof -
  have f: "of_int \<lfloor>r\<rfloor> \<le> r" "r < of_int \<lfloor>r\<rfloor> + 1" by linarith+
  show "\<lfloor>r\<rfloor> \<le> roundHalfEven r" by (simp add: roundHalfEven_def Let_def)
  show "\<bar>of_int (roundHalfEven r) - r\<bar> \<le> 1 / 2"
    using f by (auto simp: roundHalfEven_def Let_def)
qed

lemma pow2_neg: "e < 0 \<Longrightarrow> pow2 e = 1 / 2 ^ nat (- e)"
  by (simp add: pow2_def)

lemma pow2_nonpos: "e \<le> 0 \<Longrightarrow> pow2 e = 1 / 2 ^ nat (- e)"
  by (cases "e = 0") (simp_all add: pow2_def)

lemma exponent_le:
  assumes "0 < a" and "a < 2 ^ 34"
  shows "exponent a \<le> 33"
proof (cases "1 \<le> a")
  case True
  then have p: "0 < \<lfloor>a\<rfloor>" by linarith
  have "\<lfloor>a\<rfloor> < 2 ^ 34" using assms by (simp add: floor_less_iff)
  then have "bitlen \<lfloor>a\<rfloor> \<le> 34" using p by (simp add: bitlen_le_iff_power)
  then show ?thesis using True by (simp add: exponent_def)
next
  case False
  have "0 \<le> bitlen \<lfloor>1 / a\<rfloor>" by (rule bitlen_nonneg)
  moreover have "bitlen \<lfloor>1 / a\<rfloor> \<noteq> 0"
  proof -
    have "1 \<le> 1 / a" using False assms by simp
    then have "0 < \<lfloor>1 / a\<rfloor>" by linarith
    then show ?thesis by (simp add: bitlen_eq_zero_iff)
  qed
  ultimately show ?thesis using False by (simp add: exponent_def Let_def)
qed

text \<open>
  Below \<open>2 ^ 34\<close> the doubles are no further apart than \<open>2 ^ (- 19)\<close>:
  \<open>toDouble\<close> rounds to a multiple of \<open>1 / 2 ^ k\<close> with \<open>k\<close> at least 19.
\<close>

lemma toDouble_grid:
  assumes "x \<noteq> 0" and "\<bar>x\<bar> < 2 ^ 34"
  shows "\<exists>k\<ge>19. toDouble x = Num (of_int (roundHalfEven (x * 2 ^ k)) / 2 ^ k)"
proof -
  define e where "e = max (exponent \<bar>x\<bar>) (- 1022)"
  have e: "e \<le> 33" using exponent_le[of "\<bar>x\<bar>"] assms by (simp add: e_def)
  define k where "k = nat (52 - e)"
  have k: "19 \<le> k" using e by (simp add: k_def)
  have u: "pow2 (e - 52) = 1 / 2 ^ k" using e by (simp add: pow2_neg k_def)
  let ?y = "of_int (roundHalfEven (x * 2 ^ k)) / (2 ^ k :: real)"
  have "?y - x = (of_int (roundHalfEven (x * 2 ^ k)) - x * 2 ^ k) / 2 ^ k"
    by (simp add: field_simps)
  then have "\<bar>?y - x\<bar> = \<bar>of_int (roundHalfEven (x * 2 ^ k)) - x * 2 ^ k\<bar> / 2 ^ k"
    by (simp only: abs_divide) simp
  also have "\<dots> \<le> (1 / 2) / 2 ^ k"
    by (intro divide_right_mono roundHalfEven_bounds) simp
  also have "\<dots> \<le> 1 / 2" by (simp add: field_simps)
  finally have "\<bar>?y - x\<bar> \<le> 1 / 2" .
  moreover have "(2::real) ^ 34 + 1 / 2 < 2 ^ 1024" by simp
  ultimately have "\<bar>?y\<bar> < doubleOverflow" using assms(2) unfolding doubleOverflow_def by linarith
  then show ?thesis using assms(1) k
    by (auto simp: toDouble_def Let_def e_def[symmetric] u intro!: exI[of _ k])
qed

text \<open>
  Below \<open>2 ^ 53\<close> the rounded quotient has the floor of the exact one: an
  integer is a double, so rounding does not pass it, and the quotient is at least a
  millionth below the next integer, further than rounding moves it.
\<close>

lemma floor_divide_million:
  assumes "\<bar>n\<bar> < 2 ^ 53"
  shows "Math_floor (divide_number (Num (of_int n)) (Num 1000000)) = Num (of_int (n div 1000000))"
proof (cases "n = 0")
  case True
  then show ?thesis by (simp add: toDouble_def)
next
  case False
  let ?x = "of_int n / 1000000 :: real"
  let ?L = "n div 1000000"
  have x0: "?x \<noteq> 0" using False by simp
  have "\<bar>of_int n :: real\<bar> < 2 ^ 53"
    using assms by (metis of_int_abs of_int_less_numeral_power_cancel_iff)
  then have xb: "\<bar>?x\<bar> < 2 ^ 34" by simp
  from toDouble_grid[OF x0 xb] obtain k where k: "19 \<le> k"
    and d: "toDouble ?x = Num (of_int (roundHalfEven (?x * 2 ^ k)) / 2 ^ k)" by blast
  let ?m = "roundHalfEven (?x * 2 ^ k)"
  let ?y = "of_int ?m / (2 ^ k :: real)"
  have n: "n = ?L * 1000000 + n mod 1000000" by simp
  have r: "0 \<le> n mod 1000000" "n mod 1000000 \<le> 999999" by simp_all
  have "of_int n = (of_int ?L * 1000000 + of_int (n mod 1000000) :: real)"
    by (metis n of_int_add of_int_mult of_int_numeral)
  then have lo: "of_int ?L \<le> ?x" and up: "?x \<le> of_int ?L + 1 - 1 / 1000000"
    using r by (simp_all add: field_simps)
  have "of_int (?L * 2 ^ k) \<le> ?x * 2 ^ k" using lo by simp
  then have "?L * 2 ^ k \<le> \<lfloor>?x * 2 ^ k\<rfloor>" by (simp only: le_floor_iff)
  then have "?L * 2 ^ k \<le> ?m" using roundHalfEven_bounds(1)[of "?x * 2 ^ k"] by linarith
  then have "(of_int (?L * 2 ^ k) :: real) \<le> of_int ?m" by (simp only: of_int_le_iff)
  then have ylo: "of_int ?L \<le> ?y" by (simp add: field_simps)
  have "\<bar>of_int ?m - ?x * 2 ^ k\<bar> \<le> 1 / 2" by (rule roundHalfEven_bounds)
  then have "of_int ?m \<le> ?x * 2 ^ k + 1 / 2" by linarith
  then have "?y \<le> ?x + 1 / 2 / 2 ^ k" by (simp add: field_simps)
  moreover have "(2::real) ^ 19 \<le> 2 ^ k" using k by (intro power_increasing) simp_all
  then have "1 / 2 / (2 ^ k :: real) \<le> 1 / 2 / 2 ^ 19" by (intro divide_left_mono) simp_all
  moreover have "1 / 2 / (2 ^ 19 :: real) < 1 / 1000000" by simp
  ultimately have yup: "?y < of_int ?L + 1" using up by linarith
  have "\<lfloor>?y\<rfloor> = ?L" using ylo yup by (intro floor_unique) simp_all
  then show ?thesis by (simp add: d)
qed

text \<open>An integer below \<open>2 ^ 53\<close> in magnitude is a double.\<close>

lemma toDouble_int:
  assumes "\<bar>n\<bar> < 2 ^ 53"
  shows "toDouble (of_int n) = Num (of_int n)"
proof (cases "n = 0")
  case True
  then show ?thesis by (simp add: toDouble_def)
next
  case False
  then have p: "0 < \<bar>n\<bar>" by simp
  have fl: "\<lfloor>\<bar>of_int n :: real\<bar>\<rfloor> = \<bar>n\<bar>" by (metis floor_of_int of_int_abs)
  have one: "1 \<le> \<bar>of_int n :: real\<bar>" using False by (simp flip: of_int_abs)
  have ex: "exponent \<bar>of_int n :: real\<bar> = bitlen \<bar>n\<bar> - 1"
    using one by (simp add: exponent_def fl)
  have b1: "1 \<le> bitlen \<bar>n\<bar>"
    using p bitlen_eq_zero_iff[of "\<bar>n\<bar>"] bitlen_nonneg[of "\<bar>n\<bar>"] by linarith
  have b2: "bitlen \<bar>n\<bar> \<le> 53" using assms p by (simp add: bitlen_le_iff_power)
  define e where "e = bitlen \<bar>n\<bar> - 1"
  define k where "k = nat (52 - e)"
  have e: "0 \<le> e" "e \<le> 52" using b1 b2 by (simp_all add: e_def)
  have m: "max e (- 1022) = e" using e by simp
  have u: "pow2 (e - 52) = 1 / 2 ^ k" using e by (simp add: pow2_nonpos k_def)
  have "(of_int n :: real) * 2 ^ k = of_int (n * 2 ^ k)" by simp
  then have rr: "roundHalfEven (of_int n * 2 ^ k) = n * 2 ^ k"
    by (simp only: roundHalfEven_of_int)
  have sm: "\<bar>of_int n :: real\<bar> < doubleOverflow"
  proof -
    have "\<bar>of_int n :: real\<bar> < 2 ^ 53"
      using assms by (metis of_int_abs of_int_less_numeral_power_cancel_iff)
    then show ?thesis by (simp add: doubleOverflow_def)
  qed
  show ?thesis using False sm
    by (simp add: toDouble_def Let_def ex e_def[symmetric] m u rr)
qed

lemma isDigit_10_not_space: "isDigit 10 c \<Longrightarrow> \<not> isWhiteSpace c"
  by (auto simp: isDigit_def isWhiteSpace_def digitValue_def Let_def split: if_splits option.splits)

lemma isDigit_10_char:
  "isDigit 10 c \<Longrightarrow> c \<noteq> CHR ''-'' \<and> c \<noteq> CHR ''+'' \<and> c \<noteq> CHR ''x'' \<and> c \<noteq> CHR ''X''"
  by (auto simp: isDigit_def digitValue_def Let_def split: if_splits option.splits)

lemma digitsValue_nonneg: "0 \<le> digitsValue 10 s"
proof -
  have "0 \<le> a \<Longrightarrow> 0 \<le> foldl (\<lambda>acc c. acc * int 10 + int (the (digitValue c))) a s" for a
    by (induction s arbitrary: a) simp_all
  then show ?thesis by (simp add: digitsValue_def)
qed

text \<open>
  On a string of decimal digits \<open>parseInt\<close> skips nothing and reads all of it;
  the result is the double nearest to its value.
\<close>

lemma parseInt_decimal:
  assumes "isDecimalDigits s"
  shows "parseInt s = toDouble (of_int (digitsValue 10 s))"
proof -
  from assms obtain c cs where s: "s = c # cs" and c: "isDigit 10 c"
    and cs: "list_all (isDigit 10) cs"
    by (cases s) (auto simp: isDecimalDigits_def)
  have d: "dropWhile isWhiteSpace s = s" using s c isDigit_10_not_space by simp
  have ne: "s \<noteq> []" using s by simp
  have sg: "hd s \<noteq> CHR ''-''" "hd s \<noteq> CHR ''+''" using s isDigit_10_char[OF c] by simp_all
  have h: "take 2 s \<noteq> ''0x''" "take 2 s \<noteq> ''0X''"
    using s cs isDigit_10_char by (cases cs; auto)+
  have t: "takeWhile (isDigit 10) s = s"
    using assms by (simp add: isDecimalDigits_def list_all_iff)
  show ?thesis
    unfolding parseInt_def Let_def d by (simp add: ne sg h t)
qed

lemma spec_truncDiv_nonneg: "0 \<le> k \<Longrightarrow> spec_truncDiv k 1000000 = k div 1000000"
  by (cases "k = 0") (simp_all add: spec_truncDiv_def)

text \<open>
  Above \<open>2 ^ 53\<close> the code loses the last digits of the nanosecond count, in
  \<open>parseInt\<close> and again in the division, and the millisecond can be one off in
  either direction.
\<close>

lemma nanosToMillis_rounding:
  "nanosToMillis (NanosString ''1700000000002000000'') = Num 1700000000001"
  "nanosToMillis (NanosString ''1700000000000999999'') = Num 1700000000001"
  "nanosToMillis (NanosNumber 1700000000000999936) = Num 1700000000001"
  by code_simp+

text \<open>
  Claim C5, as stated, fails on \<open>nanosToMillis\<close>. The code takes
  \<^verbatim>\<open>Math.floor\<close>, which rounds down: the number \<open>-1\<close> converts to \<open>-1\<close>,
  and \<open>-1\<close> divided by 1,000,000 truncating toward zero is \<open>0\<close>. And the code
  computes in doubles: the string \<^verbatim>\<open>"1700000000002000000"\<close> converts to
  1700000000001, and its value divided by 1,000,000 is 1700000000002.
\<close>

theorem nanosToMillis_counterexample:
  "nanosToMillis (NanosNumber (- 1)) = Num (- 1)
   \<and> spec_truncDiv (- 1) 1000000 = 0
   \<and> nanosToMillis (NanosString ''1700000000002000000'') = Num 1700000000001
   \<and> spec_truncDiv (digitsValue 10 ''1700000000002000000'') 1000000 = 1700000000002"
proof -
  have "nanosToMillis (NanosNumber (- 1)) = Num (- 1)" by code_simp
  moreover have "spec_truncDiv (- 1) 1000000 = 0" by (simp add: spec_truncDiv_def)
  moreover have "spec_truncDiv (digitsValue 10 ''1700000000002000000'') 1000000 = 1700000000002"
    by code_simp
  ultimately show ?thesis using nanosToMillis_rounding(1) by simp
qed

text \<open>
  Claim C5, amended. A numeric nanosecond count \<open>n\<close> below \<open>2 ^ 53\<close> in
  magnitude converts to the floor of \<open>n / 1,000,000\<close>, which is the division
  truncating toward zero when \<open>n\<close> is not negative; a string of decimal digits
  whose value is below \<open>2 ^ 53\<close> converts to that value divided by 1,000,000,
  truncating toward zero. \<^verbatim>\<open>"1000000000"\<close> converts to 1000 and the number
  2000000 to 2.
\<close>

theorem nanosToMillis_floor:
  "(\<bar>n\<bar> < 2 ^ 53 \<longrightarrow>
      nanosToMillis (NanosNumber (of_int n)) = Num (of_int (n div 1000000)))
   \<and> (0 \<le> n \<and> n < 2 ^ 53 \<longrightarrow>
        nanosToMillis (NanosNumber (of_int n)) = Num (of_int (spec_truncDiv n 1000000)))
   \<and> (isDecimalDigits s \<and> digitsValue 10 s < 2 ^ 53 \<longrightarrow>
        nanosToMillis (NanosString s) = Num (of_int (spec_truncDiv (digitsValue 10 s) 1000000)))
   \<and> nanosToMillis (NanosString ''1000000000'') = Num 1000
   \<and> nanosToMillis (NanosNumber 2000000) = Num 2"
proof -
  have a: "nanosToMillis (NanosNumber (of_int k)) = Num (of_int (k div 1000000))"
    if "\<bar>k\<bar> < 2 ^ 53" for k
    using that by (simp only: nanosToMillis.simps floor_divide_million)
  have b: "nanosToMillis (NanosString s) = Num (of_int (spec_truncDiv (digitsValue 10 s) 1000000))"
    if "isDecimalDigits s" and "digitsValue 10 s < 2 ^ 53"
  proof -
    have v: "\<bar>digitsValue 10 s\<bar> < 2 ^ 53" using that(2) digitsValue_nonneg[of s] by simp
    show ?thesis
      by (simp only: nanosToMillis.simps parseInt_decimal[OF that(1)] toDouble_int[OF v]
          floor_divide_million[OF v] spec_truncDiv_nonneg[OF digitsValue_nonneg])
  qed
  have c: "nanosToMillis (NanosString ''1000000000'') = Num 1000" by code_simp
  have d: "nanosToMillis (NanosNumber 2000000) = Num 2" by code_simp
  have a': "nanosToMillis (NanosNumber (of_int n)) = Num (of_int (spec_truncDiv n 1000000))"
    if "0 \<le> n" "n < 2 ^ 53"
    using that a[of n] by (simp add: spec_truncDiv_nonneg)
  show ?thesis using a[of n] a' b c d by blast
qed

theorem nanosToMillis_floor_witness:
  "nanosToMillis (NanosNumber (- 1500000)) = Num (- 2)
   \<and> nanosToMillis (NanosNumber 1500000) = Num 1
   \<and> nanosToMillis (NanosString ''9007199254740991'') = Num 9007199254"
proof -
  have d: "isDecimalDigits ''9007199254740991''" by code_simp
  have v: "digitsValue 10 ''9007199254740991'' = 9007199254740991" by code_simp
  show ?thesis
    using nanosToMillis_floor[of "- 1500000" "''9007199254740991''"]
      nanosToMillis_floor[of 1500000 "''9007199254740991''"] d
    by (simp add: v spec_truncDiv_def)
qed

subsection \<open>Attributes\<close>

lemma attributeValue_spec: "attributeValue v = spec_attributeValue v"
  by (auto simp: attributeValue_def spec_attributeValue_def split: option.splits)

lemma lastWins_Cons:
  "lastWins kept (a # attrs) =
     (if kept a
      then [the (kv_key a) \<mapsto> spec_attributeValue (the (kv_value a))] ++ lastWins kept attrs
      else lastWins kept attrs)"
  by (simp add: lastWins_def)

lemma map_upd_add: "(m(k \<mapsto> v)) ++ r = m ++ ([k \<mapsto> v] ++ r)"
  by (auto simp: map_add_def fun_eq_iff split: option.splits)

text \<open>
  The loop, from any \<open>result\<close>: the entries it keeps override what \<open>result\<close>
  holds, the later ones overriding the earlier ones.
\<close>

lemma extractAttributes_loop_map_of:
  assumes "\<forall>a\<in>set attrs. kv_key a \<noteq> Some ''__proto__''"
  shows "map_of (extractAttributes_loop attrs result)
         = map_of result ++ lastWins amended_entryKept attrs"
  using assms
proof (induction attrs arbitrary: result)
  case Nil
  then show ?case by (simp add: lastWins_def)
next
  case (Cons a attrs)
  show ?case
  proof (cases "amended_entryKept a")
    case False
    then have "extractAttributes_loop (a # attrs) result = extractAttributes_loop attrs result"
      by (auto simp: amended_entryKept_def split: option.splits)
    then show ?thesis using Cons False by (simp add: lastWins_Cons)
  next
    case True
    then obtain k v where k: "kv_key a = Some k" "k \<noteq> []" and v: "kv_value a = Some v"
      by (auto simp: amended_entryKept_def)
    from Cons.prems k have p: "k \<noteq> ''__proto__''" by auto
    have l: "lastWins amended_entryKept (a # attrs)
             = [k \<mapsto> spec_attributeValue v] ++ lastWins amended_entryKept attrs"
      using True k v by (simp add: lastWins_Cons)
    have "extractAttributes_loop (a # attrs) result
          = extractAttributes_loop attrs (AList.update k (spec_attributeValue v) result)"
      using k v p by (simp add: assign_def attributeValue_spec)
    then have "map_of (extractAttributes_loop (a # attrs) result)
          = map_of (AList.update k (spec_attributeValue v) result) ++ lastWins amended_entryKept attrs"
      using Cons.IH[of "AList.update k (spec_attributeValue v) result"] Cons.prems by simp
    also have "\<dots> = (map_of result)(k \<mapsto> spec_attributeValue v) ++ lastWins amended_entryKept attrs"
      by (simp only: update_conv')
    also have "\<dots> = map_of result ++ ([k \<mapsto> spec_attributeValue v] ++ lastWins amended_entryKept attrs)"
      by (rule map_upd_add)
    finally show ?thesis by (simp only: l)
  qed
qed

lemma extractAttributes_loop_distinct:
  "distinct (map fst result) \<Longrightarrow> distinct (map fst (extractAttributes_loop attrs result))"
proof (induction attrs arbitrary: result)
  case Nil
  then show ?case by simp
next
  case (Cons a attrs)
  have "distinct (map fst (assign k v result))" for k v
    using Cons.prems by (simp add: assign_def distinct_update)
  then show ?case using Cons by (simp split: option.splits)
qed

text \<open>
  Claim C6, as stated, fails on \<open>extractAttributes\<close>: the test \<^verbatim>\<open>!attr.key\<close>
  skips an entry whose key is the empty string, which has a key and a value
  object and is kept by the reference definition.
\<close>

theorem extractAttributes_empty_key_counterexample:
  "map_of (extractAttributes (Some [stringAttr [] ''x''])) [] = None
   \<and> spec_extractAttributes [stringAttr [] ''x''] [] = Some (AString ''x'')"
  by (simp add: extractAttributes_def spec_extractAttributes_def lastWins_def stringAttr_def
      exampleValue_def spec_entryKept_def spec_attributeValue_def)

text \<open>
  Claim C6, amended. For every attribute list in which no key is \<^verbatim>\<open>__proto__\<close>,
  decoding gives the reference definition with one change: the entries skipped are
  those with no key, with the empty string as key, or with no value object. Each
  kept entry is read from the first member present among \<^verbatim>\<open>stringValue\<close>,
  \<^verbatim>\<open>intValue\<close> (through \<open>parseInt\<close>), \<^verbatim>\<open>doubleValue\<close> and \<^verbatim>\<open>boolValue\<close>, or
  else is the JSON text of the value object; the last entry of a key wins, and the
  keys of the result are distinct. Without an attribute list the result is empty.
\<close>

theorem extractAttributes_last_wins:
  assumes "\<forall>a\<in>set attrs. kv_key a \<noteq> Some ''__proto__''"
  shows "map_of (extractAttributes (Some attrs)) = amended_extractAttributes attrs
       \<and> distinct (map fst (extractAttributes (Some attrs)))
       \<and> extractAttributes None = []"
  using extractAttributes_loop_map_of[OF assms, of "[]"] extractAttributes_loop_distinct[of "[]" attrs]
  by (simp add: extractAttributes_def amended_extractAttributes_def)

theorem extractAttributes_last_wins_witness:
  "map_of (extractAttributes (Some exampleAttributes)) ''a'' = Some (ANumber (Num 7))
   \<and> map_of (extractAttributes (Some exampleAttributes)) ''b'' = Some (ABoolean True)
   \<and> map_of (extractAttributes (Some exampleAttributes)) ''c'' = None
   \<and> map_of (extractAttributes (Some exampleAttributes)) [] = None
   \<and> distinct (map fst (extractAttributes (Some exampleAttributes)))"
proof -
  have h: "\<forall>a\<in>set exampleAttributes. kv_key a \<noteq> Some ''__proto__''"
    by (simp add: exampleAttributes_def stringAttr_def)
  have p: "parseInt ''7'' = Num 7" by code_simp
  have v: "amended_extractAttributes exampleAttributes ''a'' = Some (ANumber (Num 7))"
    "amended_extractAttributes exampleAttributes ''b'' = Some (ABoolean True)"
    "amended_extractAttributes exampleAttributes ''c'' = None"
    "amended_extractAttributes exampleAttributes [] = None"
    by (simp_all add: amended_extractAttributes_def lastWins_def exampleAttributes_def
        stringAttr_def exampleValue_def amended_entryKept_def spec_attributeValue_def p)
  show ?thesis using extractAttributes_last_wins[OF h] by (simp add: v)
qed

subsection \<open>The service name\<close>

lemma extractServiceName_loop_find:
  "extractServiceName_loop attrs =
     (case find (\<lambda>a. kv_key a = Some ''service.name'') attrs of
        None \<Rightarrow> ''unknown-service''
      | Some a \<Rightarrow>
          (case kv_value a of None \<Rightarrow> ''unknown-service''
           | Some v \<Rightarrow>
               (case stringValue v of None \<Rightarrow> ''unknown-service''
                | Some s \<Rightarrow> if s = [] then ''unknown-service'' else s)))"
  by (induction attrs) (auto split: option.splits)

text \<open>
  Claim C8, as stated, fails on \<open>extractServiceName\<close>: with
  \<^verbatim>\<open>attr.value?.stringValue || 'unknown-service'\<close> the empty string, which is
  falsy, gives the default and is not taken as it is.
\<close>

theorem extractServiceName_empty_string_counterexample:
  "extractServiceName (Some \<lparr>res_attributes = Some [stringAttr ''service.name'' []]\<rparr>)
     = ''unknown-service''
   \<and> spec_extractServiceName (Some \<lparr>res_attributes = Some [stringAttr ''service.name'' []]\<rparr>) = []"
  by (simp add: extractServiceName_def spec_extractServiceName_def resourceAttributes_def
      stringAttr_def exampleValue_def)

text \<open>
  Claim C8, amended. The service name of a group is decided by the first resource
  attribute whose key is \<^verbatim>\<open>service.name\<close>: it is that attribute's string value
  when it has one that is not empty, and \<^verbatim>\<open>unknown-service\<close> when there is no
  resource, no attribute list, no such attribute, no string value, or an empty
  one.
\<close>

theorem extractServiceName_first_match:
  "extractServiceName resource = amended_extractServiceName resource"
  by (simp add: extractServiceName_def amended_extractServiceName_def resourceAttributes_def
      extractServiceName_loop_find split: option.splits)

subsection \<open>Missing structure\<close>

text \<open>\<open>convertSpan\<close> throws exactly when the start time is not a valid date.\<close>

lemma convertSpan_throws:
  "(\<exists>e. convertSpan sp svc = Inl e)
   \<longleftrightarrow> TimeClip (nanosToMillis (span_startTimeUnixNano sp)) = None"
  by (auto simp: convertSpan_def Date_toISOString_def Let_def split: option.splits sum.splits)

text \<open>
  A payload that is not an object, a request without \<^verbatim>\<open>resourceSpans\<close>, a group
  without \<^verbatim>\<open>scopeSpans\<close> and a scope group without \<^verbatim>\<open>spans\<close> add nothing and
  throw nothing.
\<close>

lemma processTraces_missing_groups:
  "processTraces (NotObject p) st = (None, st)"
  "processTraces (Request \<lparr>resourceSpans = None\<rparr>) st = (None, st)"
  "processTraces (Request \<lparr>resourceSpans =
      Some [\<lparr>rs_resource = None, rs_scopeSpans = None\<rparr>]\<rparr>) st = (None, st)"
  "processTraces (Request \<lparr>resourceSpans =
      Some [\<lparr>rs_resource = None, rs_scopeSpans = Some [\<lparr>ss_spans = None\<rparr>]\<rparr>]\<rparr>) st = (None, st)"
  by (simp_all add: processTraces_def)

lemma convertSpan_without_startTime: "convertSpan spanWithoutStartTime svc = Inl RangeError"
  by (simp add: convertSpan_def spanWithoutStartTime_def exampleWireSpan_def
      Date_toISOString_def TimeClip_def)

text \<open>
  Claim C2 holds for the groups and for every optional member of a span but one.
  A span without \<^verbatim>\<open>startTimeUnixNano\<close> has the start time \<open>NaN\<close>, and
  \<^verbatim>\<open>new Date(NaN).toISOString()\<close> throws a \<^verbatim>\<open>RangeError\<close>, which
  \<open>processTraces\<close> throws again: decoding the payload with this one span ends
  with the exception, and the store is as before.
\<close>

theorem processTraces_without_startTime_throws:
  "processTraces (requestOf spanWithoutStartTime) st = (Some RangeError, st)"
  by (simp add: processTraces_def requestOf_def convertSpan_without_startTime)

end
